theory Spec2Isabelle
  imports Complex_Main
begin

section \<open>Data model of \<open>splipy/curve_factory.py\<close>\<close>

text \<open>
  Python floats are modelled as exact reals (\<open>sqrt\<close>, \<open>cos\<close>, \<open>sin\<close>, \<open>pi\<close> are the
  real functions), Python lists of floats as \<open>real list\<close>, and a matrix (a nested list or
  a two-dimensional numpy array) as the list of its rows.
\<close>

type_synonym point = "real list"
type_synonym mat = "real list list"

text \<open>
  Every exception the module can raise is a value.  The module itself only raises
  \<open>ValueError\<close>; the other kinds come from the Python language (an unbound name, an index
  out of range, a division by zero, an operation the type of the operand does not
  support) and from numpy (\<open>LinAlgError\<close>, a failed broadcast is a \<open>ValueError\<close>).
\<close>

datatype error =
    ValueError string
  | NameError string
  | TypeError string
  | AttributeError string
  | IndexError string
  | ZeroDivisionError string
  | LinAlgError string

text \<open>
  \<open>BSplineBasis(order, knots, periodic)\<close> and \<open>Curve(basis, controlpoints, rational)\<close>
  are constructors of classes defined outside this module; a call is recorded with the
  arguments it is given.  The third argument of \<open>BSplineBasis\<close> is optional in the
  source (\<open>None\<close> when the call omits it); \<open>rational\<close> is \<open>False\<close> when omitted.
\<close>

datatype basis = BSplineBasis (order: nat) (knots: "real list") (periodic: "int option")

datatype curve = Curve (basis_of: basis) (controlpoints: mat) (rational: bool)

section \<open>\<open>polygon\<close>\<close>

text \<open>
  \<^verbatim>\<open>
    knot = [0, 0]
    prevPt = points[0]
    for pt in points[1:]:
        dist = 0
        for (x0, x1) in zip(prevPt, pt):
            dist += (x1 - x0)**2
        knot.append(knot[-1] + sqrt(dist))
        prevPt = pt
    knot.append(knot[-1])
  \<close>
  \<open>polygon_knot knot prevPt pts\<close> is the outer loop over the remaining points.
\<close>

definition sqdist :: "point \<Rightarrow> point \<Rightarrow> real" where
  "sqdist prevPt pt = (\<Sum>(x0, x1) \<leftarrow> zip prevPt pt. (x1 - x0)\<^sup>2)"

fun polygon_knot :: "real list \<Rightarrow> point \<Rightarrow> point list \<Rightarrow> real list" where
  "polygon_knot knot prevPt [] = knot"
| "polygon_knot knot prevPt (pt # pts) =
     polygon_knot (knot @ [last knot + sqrt (sqdist prevPt pt)]) pt pts"

text \<open>
  \<^verbatim>\<open>
    for i in range(1, len(points)):
        points[i] = [x0 + x1 for (x0,x1) in zip(points[i-1], points[i])]
  \<close>
  Each point is replaced by its sum with the already replaced predecessor.
\<close>

fun accumulate :: "point \<Rightarrow> point list \<Rightarrow> point list" where
  "accumulate prev [] = []"
| "accumulate prev (p # ps) =
     (let q = map (\<lambda>(x0, x1). x0 + x1) (zip prev p) in q # accumulate q ps)"

text \<open>
  \<open>points\<close> is the sequence of points after the unwrapping of a single list argument
  (\<open>if len(points) == 1: points = points[0]\<close>); \<open>points[0]\<close> raises on an empty sequence.
\<close>

definition polygon :: "point list \<Rightarrow> bool \<Rightarrow> error + curve" where
  "polygon points relative =
     (case points of
        [] \<Rightarrow> Inl (IndexError ''points[0]'')
      | p0 # rest \<Rightarrow>
          let knot = polygon_knot [0, 0] p0 rest;
              knot = knot @ [last knot];
              points = (if relative then p0 # accumulate p0 rest else points)
          in Inr (Curve (BSplineBasis 2 knot None) points False))"

section \<open>Collaborators\<close>

text \<open>
  The module calls code that lives outside it: the evaluation of a basis
  (\<open>basis.evaluate(t)\<close>, \<open>basis(t, d=...)\<close>), its Greville points, the scaling of a
  curve (\<open>result *= r\<close>), the placement of a planar curve
  (\<open>flip_and_move_plane_geometry\<close>) and numpy's linear solvers.  The functions of this
  module take them as a parameter; each of them may fail.  \<open>evaluate c b t d\<close> is the
  matrix of the \<open>d\<close>-th derivatives of the basis functions of \<open>b\<close>, one row for each
  parameter value in \<open>t\<close>.
\<close>

record collaborators =
  evaluate :: "basis \<Rightarrow> real list \<Rightarrow> nat \<Rightarrow> error + mat"
  greville :: "basis \<Rightarrow> error + real list"
  solve :: "mat \<Rightarrow> mat \<Rightarrow> error + mat"
  lstsq :: "mat \<Rightarrow> mat \<Rightarrow> error + mat"
  imul :: "curve \<Rightarrow> real \<Rightarrow> error + curve"
  flip_and_move_plane_geometry :: "curve \<Rightarrow> point \<Rightarrow> point \<Rightarrow> error + curve"

text \<open>Sequencing: an exception of the first computation ends the call.\<close>

definition and_then :: "error + 'a \<Rightarrow> ('a \<Rightarrow> error + 'b) \<Rightarrow> error + 'b" where
  "and_then r f = (case r of Inl e \<Rightarrow> Inl e | Inr v \<Rightarrow> f v)"

section \<open>\<open>circle\<close>\<close>

text \<open>
  \<open>circle_curve\<close> is the \<open>if type == ... elif ... else\<close> block of \<open>circle\<close>: the curve on
  the unit circle, or the \<open>ValueError\<close> for an unknown type.  \<open>circle\<close> checks the radius
  first, then scales and places the curve.
\<close>

definition circle_curve :: "string \<Rightarrow> error + curve" where
  "circle_curve type =
     (if type = ''p2C0'' \<or> type = ''C0p2'' then
        let w = 1 / sqrt 2;
            controlpoints = [[1, 0, 1],
                             [w, w, w],
                             [0, 1, 1],
                             [-w, w, w],
                             [-1, 0, 1],
                             [-w, -w, w],
                             [0, -1, 1],
                             [w, -w, w]];
            knot = map (\<lambda>k. k / 4 * 2 * pi) [-1, 0, 0, 1, 1, 2, 2, 3, 3, 4, 4, 5]
        in Inr (Curve (BSplineBasis 3 knot (Some 0)) controlpoints True)
      else if type = ''p4C1'' \<or> type = ''C1p4'' then
        let w = 2 * sqrt 2 / 3;
            a = 1 / 2 / sqrt 2;
            b = 1 / 6 * (4 * sqrt 2 - 1);
            controlpoints = [[ 1, -a, 1],
                             [ 1,  a, 1],
                             [ b,  b, w],
                             [ a,  1, 1],
                             [-a,  1, 1],
                             [-b,  b, w],
                             [-1,  a, 1],
                             [-1, -a, 1],
                             [-b, -b, w],
                             [-a, -1, 1],
                             [ a, -1, 1],
                             [ b, -b, w]];
            knot = map (\<lambda>k. k / 4 * 2 * pi)
                     [-1, -1, 0, 0, 0, 1, 1, 1, 2, 2, 2, 3, 3, 3, 4, 4, 4, 5, 5]
        in Inr (Curve (BSplineBasis 5 knot (Some 1)) controlpoints True)
      else Inl (ValueError (''Unkown type: '' @ type)))"

definition circle ::
  "collaborators \<Rightarrow> real \<Rightarrow> point \<Rightarrow> point \<Rightarrow> string \<Rightarrow> error + curve" where
  "circle c r center normal type =
     (if r \<le> 0 then Inl (ValueError ''radius needs to be positive'')
      else and_then (circle_curve type) (\<lambda>result.
           and_then (imul c result r) (\<lambda>result.
           flip_and_move_plane_geometry c result center normal)))"

section \<open>\<open>circle_segment\<close>\<close>

text \<open>
  \<^verbatim>\<open>
    for i in range(n):
        w = 1 - (i % 2) * (1 - cos(dt))
        x = r * cos(t)
        y = r * sin(t)
        cp += [[x, y, w]]
        t += dt
  \<close>
\<close>

fun build_controlpoints :: "real \<Rightarrow> real \<Rightarrow> nat list \<Rightarrow> real \<Rightarrow> mat \<Rightarrow> mat" where
  "build_controlpoints r dt [] t cp = cp"
| "build_controlpoints r dt (i # is) t cp =
     (let w = 1 - real (i mod 2) * (1 - cos dt);
          x = r * cos t;
          y = r * sin t
      in build_controlpoints r dt is (t + dt) (cp @ [[x, y, w]]))"

text \<open>
  \<open>segment_curve\<close> is the part of \<open>circle_segment\<close> after the input tests, up to the call
  of \<open>Curve\<close>.  \<open>knot_spans\<close> and \<open>n\<close> are Python integers and may be zero or negative
  (\<open>range\<close> of a negative number is empty).  With \<open>knot_spans = 0\<close> the division of the
  numpy array by \<open>float(knot[-1])\<close> only warns, and
  \<open>dt = float(theta) / knot_spans / 2\<close> raises \<open>ZeroDivisionError\<close>.
\<close>

definition segment_curve :: "real \<Rightarrow> real \<Rightarrow> error + curve" where
  "segment_curve theta r =
     (let knot_spans = \<lceil>theta / (2 * pi / 3)\<rceil>;
          knot = [0] @ concat (map (\<lambda>i. [i, i]) [0..knot_spans]) @ [knot_spans];
          knot = map (\<lambda>k. real_of_int k / real_of_int (last knot) * theta) knot;
          n = (knot_spans - 1) * 2 + 3
      in if knot_spans = 0 then Inl (ZeroDivisionError ''float division by zero'')
         else
           let dt = theta / real_of_int knot_spans / 2;
               cp = build_controlpoints r dt [0..<nat n] 0 []
           in Inr (Curve (BSplineBasis 3 knot None) cp True))"

definition circle_segment ::
  "collaborators \<Rightarrow> real \<Rightarrow> real \<Rightarrow> point \<Rightarrow> point \<Rightarrow> error + curve" where
  "circle_segment c theta r center normal =
     (if \<bar>theta\<bar> > 2 * pi then Inl (ValueError ''theta needs to be in range [-2pi,2pi]'')
      else if r \<le> 0 then Inl (ValueError ''radius needs to be positive'')
      else if theta = 2 * pi then circle c r center normal ''p2C0''
      else and_then (segment_curve theta r) (\<lambda>result.
           flip_and_move_plane_geometry c result center normal))"

text \<open>
  The homogeneous form of a rational control point: the last column is the weight, the
  columns before it are the Cartesian coordinates multiplied by the weight.
\<close>

definition weight :: "point \<Rightarrow> real" where
  "weight row = last row"

definition cartesian :: "point \<Rightarrow> point" where
  "cartesian row = map (\<lambda>x. x / weight row) (butlast row)"



section \<open>Python lists and numpy arrays\<close>

text \<open>
  Python indexing: a negative index counts from the end, an index out of range raises
  \<open>IndexError\<close>.
\<close>

definition py_index :: "'a list \<Rightarrow> int \<Rightarrow> error + nat" where
  "py_index xs i =
     (if 0 \<le> i \<and> i < int (length xs) then Inr (nat i)
      else if i < 0 \<and> - int (length xs) \<le> i then Inr (nat (int (length xs) + i))
      else Inl (IndexError ''list index out of range''))"

definition py_get :: "'a list \<Rightarrow> int \<Rightarrow> error + 'a" where
  "py_get xs i = and_then (py_index xs i) (\<lambda>j. Inr (xs ! j))"

definition py_set :: "'a list \<Rightarrow> int \<Rightarrow> 'a \<Rightarrow> error + 'a list" where
  "py_set xs i v = and_then (py_index xs i) (\<lambda>j. Inr (xs[j := v]))"

definition py_del :: "'a list \<Rightarrow> int \<Rightarrow> error + 'a list" where
  "py_del xs i = and_then (py_index xs i) (\<lambda>j. Inr (take j xs @ drop (Suc j) xs))"

text \<open>
  The point matrix \<open>x\<close> of \<open>cubic_curve\<close>, \<open>interpolate\<close> and \<open>least_square_fit\<close> is either a
  plain Python list of points or a two-dimensional numpy array.  Both have a length and
  can be wrapped by \<open>np.matrix\<close>; only the array has \<open>shape\<close> and two-dimensional slices.
\<close>

datatype points = PyList mat | NdArray mat

fun rows_of :: "points \<Rightarrow> mat" where
  "rows_of (PyList m) = m"
| "rows_of (NdArray m) = m"

definition shape0 :: "mat \<Rightarrow> nat" where
  "shape0 m = length m"

definition shape1 :: "mat \<Rightarrow> nat" where
  "shape1 m = (case m of [] \<Rightarrow> 0 | row # _ \<Rightarrow> length row)"

text \<open>
  \<open>np.resize(a, (rows, cols))\<close> fills the new array, row by row, with the flattened
  entries of \<open>a\<close>, repeated as often as needed (zeros when \<open>a\<close> has no entry).
\<close>

definition np_resize :: "mat \<Rightarrow> nat \<Rightarrow> nat \<Rightarrow> mat" where
  "np_resize a rows cols =
     (let flat = concat a
      in map (\<lambda>i. map (\<lambda>j. if flat = [] then 0 else flat ! ((i * cols + j) mod length flat))
                        [0..<cols])
             [0..<rows])"

text \<open>
  \<open>a[n:,:] = v\<close> broadcasts \<open>v\<close> to the shape of the slice: \<open>v\<close> must have as many rows as
  the slice or one row, and as many columns as \<open>a\<close> or one column; otherwise numpy raises
  \<open>ValueError\<close>.
\<close>

definition broadcast_row :: "nat \<Rightarrow> real list \<Rightarrow> real list" where
  "broadcast_row cols row = (if length row = cols then row else replicate cols (hd row))"

definition set_rows_from :: "mat \<Rightarrow> nat \<Rightarrow> mat \<Rightarrow> error + mat" where
  "set_rows_from a n v =
     (let k = shape0 a - n; cols = shape1 a
      in if (shape0 v = k \<or> shape0 v = 1) \<and> (shape1 v = cols \<or> shape1 v = 1)
         then Inr (take n a @
                   map (\<lambda>i. broadcast_row cols (if shape0 v = k then v ! i else hd v)) [0..<k])
         else Inl (ValueError ''could not broadcast input array''))"

text \<open>\<open>a[-new:,:] = 0\<close>\<close>

definition zero_last_rows :: "mat \<Rightarrow> nat \<Rightarrow> mat" where
  "zero_last_rows a new =
     take (shape0 a - new) a @ replicate (min new (shape0 a)) (replicate (shape1 a) 0)"

section \<open>\<open>interpolate\<close> and \<open>least_square_fit\<close>\<close>


definition least_square_fit ::
  "collaborators \<Rightarrow> points \<Rightarrow> basis \<Rightarrow> real list \<Rightarrow> error + curve" where
  "least_square_fit c x basis t =
     (let x = rows_of x
      in and_then (evaluate c basis t 0) (\<lambda>N.
         and_then (lstsq c N x) (\<lambda>controlpoints.
         Inr (Curve basis controlpoints False))))"

section \<open>\<open>cubic_curve\<close>\<close>

datatype boundary = FREE | NATURAL | HERMITE | PERIODIC | TANGENT | TANGENTNATURAL

text \<open>
  \<^verbatim>\<open>
    if t is None:
        t = [0.0]
        for (x0,x1) in zip(x[:-1,:], x[1:,:]):
            dist = np.linalg.norm(np.array(x1)-np.array(x0))
            t.append(t[-1]+dist)
  \<close>
  A plain list cannot be indexed by the tuple \<open>(slice, slice)\<close>.
\<close>

fun chord_lengths :: "real list \<Rightarrow> (point \<times> point) list \<Rightarrow> real list" where
  "chord_lengths t [] = t"
| "chord_lengths t ((x0, x1) # ps) =
     chord_lengths (t @ [last t + sqrt (sqdist x0 x1)]) ps"

definition parameter_sample :: "points \<Rightarrow> real list option \<Rightarrow> error + real list" where
  "parameter_sample x t =
     (case t of
        Some t \<Rightarrow> Inr t
      | None \<Rightarrow>
          (case x of
             PyList m \<Rightarrow> Inl (TypeError ''list indices must be integers, not tuple'')
           | NdArray m \<Rightarrow> Inr (chord_lengths [0] (zip (butlast m) (tl m)))))"

text \<open>
  \<^verbatim>\<open>
    knot = [t[0]]*3 + list(t) + [t[-1]]*3
    if boundary == Boundary.FREE:
        del knot[-5]
        del knot[4]
    elif boundary == Boundary.HERMITE:
        knot = sorted(knot + t[1:-1])
  \<close>
\<close>

definition padded :: "real list \<Rightarrow> real list" where
  "padded t = replicate 3 (hd t) @ t @ replicate 3 (last t)"

definition cubic_knot :: "boundary \<Rightarrow> real list \<Rightarrow> error + real list" where
  "cubic_knot boundary t =
     (if t = [] then Inl (IndexError ''list index out of range'')
      else
        let knot = padded t
        in if boundary = FREE then
             and_then (py_del knot (-5)) (\<lambda>knot. py_del knot 4)
           else if boundary = HERMITE then
             Inr (sort (knot @ butlast (tl t)))
           else Inr knot)"

text \<open>
  \<^verbatim>\<open>
    if boundary == Boundary.PERIODIC:
        knot[0]  = t[-3] - t[-1]
        knot[1]  = t[-2] - t[-1]
        knot[-2] = t[-1] + t[1]
        knot[-1] = t[-1] + t[2]
        basis = BSplineBasis(4, knot, 1)
    else:
        basis = BSplineBasis(4, knot)
  \<close>
\<close>

definition cubic_basis :: "boundary \<Rightarrow> real list \<Rightarrow> real list \<Rightarrow> error + basis" where
  "cubic_basis boundary t knot =
     (if boundary = PERIODIC then
        and_then (py_get t (-3)) (\<lambda>a. and_then (py_get t (-1)) (\<lambda>b.
        and_then (py_set knot 0 (a - b)) (\<lambda>knot.
        and_then (py_get t (-2)) (\<lambda>a. and_then (py_get t (-1)) (\<lambda>b.
        and_then (py_set knot 1 (a - b)) (\<lambda>knot.
        and_then (py_get t (-1)) (\<lambda>a. and_then (py_get t 1) (\<lambda>b.
        and_then (py_set knot (-2) (a + b)) (\<lambda>knot.
        and_then (py_get t (-1)) (\<lambda>a. and_then (py_get t 2) (\<lambda>b.
        and_then (py_set knot (-1) (a + b)) (\<lambda>knot.
        Inr (BSplineBasis 4 knot (Some 1))))))))))))))
      else Inr (BSplineBasis 4 knot None))"

text \<open>
  \<open>x = np.resize(x, (x.shape[0]+new, x.shape[1]))\<close>: a plain list has no attribute
  \<open>shape\<close>; the result of \<open>np.resize\<close> is an array.
\<close>

definition resize_points :: "points \<Rightarrow> nat \<Rightarrow> error + points" where
  "resize_points x new =
     (case x of
        PyList m \<Rightarrow> Inl (AttributeError ''list object has no attribute shape'')
      | NdArray m \<Rightarrow> Inr (NdArray (np_resize m (shape0 m + new) (shape1 m))))"

text \<open>
  \<^verbatim>\<open>
    if boundary in [Boundary.TANGENT, Boundary.HERMITE, Boundary.TANGENTNATURAL]:
        if boundary == Boundary.TANGENT:
            dn = basis([t[0], t[-1]], d=1)
            N  = np.resize(N, (N.shape[0]+2, N.shape[1]))
            x  = np.resize(x, (x.shape[0]+2, x.shape[1]))
        elif boundary == Boundary.TANGENTNATURAL:
            dn = basis(t[0], d=1)
            N  = np.resize(N, (N.shape[0]+1, N.shape[1]))
            x  = np.resize(x, (x.shape[0]+1, x.shape[1]))
        elif boundary == Boundary.HERMITE:
            dn = getBasis(t, d=1)
            N  = np.resize(N, (N.shape[0]+n, N.shape[1]))
            x  = np.resize(x, (x.shape[0]+n, x.shape[1]))
        x[n:,:] = tangents
        N[n:,:] = dn
  \<close>
  The name \<open>getBasis\<close> is bound nowhere in the module: looking it up raises
  \<open>NameError\<close>.  \<open>t\<close> is not empty here (\<open>cubic_knot\<close> has read \<open>t[0]\<close>).
\<close>

definition append_rows ::
  "mat \<Rightarrow> points \<Rightarrow> nat \<Rightarrow> nat \<Rightarrow> mat \<Rightarrow> mat \<Rightarrow> error + mat \<times> points" where
  "append_rows N x n new tangents dn =
     (let N = np_resize N (shape0 N + new) (shape1 N)
      in and_then (resize_points x new) (\<lambda>x.
         and_then (set_rows_from (rows_of x) n tangents) (\<lambda>x.
         and_then (set_rows_from N n dn) (\<lambda>N.
         Inr (N, NdArray x)))))"

definition derivative_conditions ::
  "collaborators \<Rightarrow> boundary \<Rightarrow> basis \<Rightarrow> real list \<Rightarrow> nat \<Rightarrow> mat \<Rightarrow> mat \<Rightarrow> points
     \<Rightarrow> error + mat \<times> points" where
  "derivative_conditions c boundary basis t n tangents N x =
     (if boundary \<in> {TANGENT, HERMITE, TANGENTNATURAL} then
        if boundary = TANGENT then
          and_then (evaluate c basis [hd t, last t] 1) (\<lambda>dn.
          append_rows N x n 2 tangents dn)
        else if boundary = TANGENTNATURAL then
          and_then (evaluate c basis [hd t] 1) (\<lambda>dn.
          append_rows N x n 1 tangents dn)
        else Inl (NameError ''name getBasis is not defined'')
      else Inr (N, x))"

text \<open>
  \<^verbatim>\<open>
    if boundary in [Boundary.NATURAL, Boundary.TANGENTNATURAL]:
        if boundary == Boundary.NATURAL:
            ddn  = basis([t[0], t[-1]], d=2)
            new  = 2
        elif boundary == Boundary.TANGENTNATURAL:
            ddn  = basis(t[-1], d=2)
            new  = 1
        N  = np.resize(N, (N.shape[0]+new, N.shape[1]))
        x  = np.resize(x, (x.shape[0]+new, x.shape[1]))
        N[-new:,:] = ddn
        x[-new:,:] = 0
  \<close>
\<close>

definition second_derivative_conditions ::
  "collaborators \<Rightarrow> boundary \<Rightarrow> basis \<Rightarrow> real list \<Rightarrow> mat \<Rightarrow> points
     \<Rightarrow> error + mat \<times> points" where
  "second_derivative_conditions c boundary basis t N x =
     (if boundary \<in> {NATURAL, TANGENTNATURAL} then
        and_then (if boundary = NATURAL then evaluate c basis [hd t, last t] 2
                  else evaluate c basis [last t] 2) (\<lambda>ddn.
        let new = (if boundary = NATURAL then 2 else 1);
            rows = shape0 N;
            N = np_resize N (shape0 N + new) (shape1 N)
        in and_then (resize_points x new) (\<lambda>x.
           and_then (set_rows_from N rows ddn) (\<lambda>N.
           Inr (N, NdArray (zero_last_rows (rows_of x) new)))))
      else Inr (N, x))"

text \<open>
  The whole function.  \<open>tangents\<close> is the matrix a caller supplies; the regimes that do
  not read it ignore it.
\<close>

definition cubic_curve ::
  "collaborators \<Rightarrow> points \<Rightarrow> boundary \<Rightarrow> real list option \<Rightarrow> mat \<Rightarrow> error + curve" where
  "cubic_curve c x boundary t tangents =
     (let n = length (rows_of x)
      in and_then (parameter_sample x t) (\<lambda>t.
         and_then (cubic_knot boundary t) (\<lambda>knot.
         and_then (cubic_basis boundary t knot) (\<lambda>basis.
         and_then (evaluate c basis t 0) (\<lambda>N.
         and_then (derivative_conditions c boundary basis t n tangents N x) (\<lambda>(N, x).
         and_then (second_derivative_conditions c boundary basis t N x) (\<lambda>(N, x).
         and_then (solve c N (rows_of x)) (\<lambda>cp.
         Inr (Curve basis cp False)))))))))"

section \<open>Reference collaborators\<close>

text \<open>
  The general theorems below hold for every choice of the collaborators.  To run the
  module on concrete inputs, this section gives one choice, in exact arithmetic.
\<close>

definition ratio :: "real \<Rightarrow> real \<Rightarrow> real" where
  "ratio a b = (if b = 0 then 0 else a / b)"

text \<open>
  Modelled from the spec: the Basis Evaluator (\<open>BSplineBasis.evaluate\<close>, a class of the
  package that is not part of this module) maps each parameter value to a row of
  basis-function values or derivatives.  \<open>bspline kn p d i u\<close> is the \<open>d\<close>-th derivative at
  \<open>u\<close> of the \<open>i\<close>-th B-spline of degree \<open>p\<close> on the knots \<open>kn\<close>, by the Cox-de Boor
  recursion; at the last knot the value is the limit from the left.  Only bases that are
  not periodic are evaluated.
\<close>

fun bspline :: "real list \<Rightarrow> nat \<Rightarrow> nat \<Rightarrow> nat \<Rightarrow> real \<Rightarrow> real" where
  "bspline kn 0 0 i u =
     (if (kn ! i \<le> u \<and> u < kn ! (i + 1)) \<or> (u = last kn \<and> kn ! i < u \<and> u \<le> kn ! (i + 1))
      then 1 else 0)"
| "bspline kn 0 (Suc d) i u = 0"
| "bspline kn (Suc p) 0 i u =
     ratio ((u - kn ! i) * bspline kn p 0 i u) (kn ! (i + p + 1) - kn ! i) +
     ratio ((kn ! (i + p + 2) - u) * bspline kn p 0 (i + 1) u)
           (kn ! (i + p + 2) - kn ! (i + 1))"
| "bspline kn (Suc p) (Suc d) i u =
     real (Suc p) *
       (ratio (bspline kn p d i u) (kn ! (i + p + 1) - kn ! i) -
        ratio (bspline kn p d (i + 1) u) (kn ! (i + p + 2) - kn ! (i + 1)))"

definition ref_evaluate :: "basis \<Rightarrow> real list \<Rightarrow> nat \<Rightarrow> error + mat" where
  "ref_evaluate b t d =
     (if 0 < order b \<and> order b < length (knots b) \<and> periodic b = None
      then Inr (map (\<lambda>u. map (\<lambda>i. bspline (knots b) (order b - 1) d i u)
                              [0..<length (knots b) - order b]) t)
      else Inl (ValueError ''basis outside the reference evaluator''))"

text \<open>
  Modelled from the spec: the Greville abscissa of a basis function is the mean of the
  \<open>order - 1\<close> knots inside its support.
\<close>

definition ref_greville :: "basis \<Rightarrow> error + real list" where
  "ref_greville b =
     (if 1 < order b \<and> order b < length (knots b) \<and> periodic b = None
      then Inr (map (\<lambda>i. sum_list (take (order b - 1) (drop (i + 1) (knots b)))
                           / real (order b - 1))
                    [0..<length (knots b) - order b])
      else Inl (ValueError ''basis outside the reference evaluator''))"

text \<open>
  \<open>np.linalg.solve\<close> in exact arithmetic, by Gaussian elimination on the rows of the
  augmented matrix: \<open>pick\<close> takes the first row with a non-zero leading entry as the
  pivot, \<open>gauss\<close> eliminates the leading unknown from the other rows, solves the rest
  and substitutes back.
\<close>

fun pick :: "mat \<Rightarrow> (real list \<times> mat) option" where
  "pick [] = None"
| "pick (row # rows) =
     (if hd row = 0
      then (case pick rows of None \<Rightarrow> None | Some (p, rs) \<Rightarrow> Some (p, row # rs))
      else Some (row, rows))"

definition axpy :: "real \<Rightarrow> real list \<Rightarrow> real list \<Rightarrow> real list" where
  "axpy a xs ys = map (\<lambda>(x, y). y - a * x) (zip xs ys)"

fun gauss :: "nat \<Rightarrow> mat \<Rightarrow> mat option" where
  "gauss 0 rows = Some []"
| "gauss (Suc n) rows =
     (case pick rows of
        None \<Rightarrow> None
      | Some (piv, rest) \<Rightarrow>
          let pr = map (\<lambda>v. v / hd piv) (tl piv);
              rest = map (\<lambda>row. axpy (hd row) pr (tl row)) rest
          in (case gauss n rest of
                None \<Rightarrow> None
              | Some sol \<Rightarrow>
                  Some (foldr (\<lambda>(a, s) acc. axpy a s acc) (zip (take n pr) sol) (drop n pr)
                        # sol)))"

definition ref_solve :: "mat \<Rightarrow> mat \<Rightarrow> error + mat" where
  "ref_solve N x =
     (if list_all (\<lambda>row. length row = length N) N \<and> length x = length N then
        (case gauss (length N) (map (\<lambda>(a, b). a @ b) (zip N x)) of
           None \<Rightarrow> Inl (LinAlgError ''Singular matrix'')
         | Some cp \<Rightarrow> Inr cp)
      else Inl (LinAlgError ''Last 2 dimensions of the array must be square''))"

text \<open>
  \<open>np.linalg.lstsq\<close> in exact arithmetic, for a matrix of full rank: the least-squares
  solution of an over-determined or square system (normal equations), the solution of
  minimal norm of an under-determined one.  numpy raises for neither shape.
\<close>

definition mat_mul :: "mat \<Rightarrow> mat \<Rightarrow> mat" where
  "mat_mul A B =
     map (\<lambda>row. map (\<lambda>col. \<Sum>(a, b) \<leftarrow> zip row col. a * b) (transpose B)) A"

definition ref_lstsq :: "mat \<Rightarrow> mat \<Rightarrow> error + mat" where
  "ref_lstsq N x =
     (if shape0 N < shape1 N then
        and_then (ref_solve (mat_mul N (transpose N)) x) (\<lambda>y.
        Inr (mat_mul (transpose N) y))
      else ref_solve (mat_mul (transpose N) N) (mat_mul (transpose N) x))"

text \<open>
  Modelled from the spec: scaling a curve multiplies its coordinates by the factor and
  leaves the weight column of a rational curve as it is; the Plane placement leaves a
  curve where it is for the default centre \<open>(0,0,0)\<close> and normal \<open>(0,0,1)\<close>, the only
  placement the reference collaborators perform.
\<close>

definition ref_imul :: "curve \<Rightarrow> real \<Rightarrow> error + curve" where
  "ref_imul crv r =
     Inr (Curve (basis_of crv)
            (map (\<lambda>row. if rational crv then map (\<lambda>v. v * r) (butlast row) @ [last row]
                         else map (\<lambda>v. v * r) row)
                 (controlpoints crv))
            (rational crv))"

definition ref_flip_and_move :: "curve \<Rightarrow> point \<Rightarrow> point \<Rightarrow> error + curve" where
  "ref_flip_and_move crv center normal =
     (if center = [0, 0, 0] \<and> normal = [0, 0, 1] then Inr crv
      else Inl (ValueError ''placement outside the reference collaborators''))"

definition reference :: collaborators where
  "reference =
     \<lparr> evaluate = ref_evaluate, greville = ref_greville, solve = ref_solve,
       lstsq = ref_lstsq, imul = ref_imul,
       flip_and_move_plane_geometry = ref_flip_and_move \<rparr>"

section \<open>Notions of the specification\<close>

text \<open>
  The knots of a sequence that remain when the knots at a set of positions are removed.
\<close>

definition remove_positions :: "nat set \<Rightarrow> 'a list \<Rightarrow> 'a list" where
  "remove_positions A xs = nths xs (- A)"

text \<open>
  The squared residual of control points \<open>cp\<close> for the system \<open>N cp = x\<close>, and the contract
  of a least-squares solver: among the control-point matrices of the right shape, none
  has a smaller residual.
\<close>

definition residual :: "mat \<Rightarrow> mat \<Rightarrow> mat \<Rightarrow> real" where
  "residual N cp x = (\<Sum>(r, xr) \<leftarrow> zip (mat_mul N cp) x. sqdist r xr)"

definition well_shaped :: "nat \<Rightarrow> nat \<Rightarrow> mat \<Rightarrow> bool" where
  "well_shaped rows cols m = (length m = rows \<and> list_all (\<lambda>row. length row = cols) m)"

definition least_squares :: "mat \<Rightarrow> mat \<Rightarrow> mat \<Rightarrow> bool" where
  "least_squares N x cp =
     (\<forall>cp'. well_shaped (shape1 N) (shape1 x) cp' \<longrightarrow> residual N cp x \<le> residual N cp' x)"

section \<open>Properties\<close>

subsection \<open>Rational control points of the conic constructors\<close>






lemma build_controlpoints_eq:
  "build_controlpoints r dt [k..<k + m] (real k * dt) cp =
     cp @ map (\<lambda>i. [r * cos (real i * dt), r * sin (real i * dt),
                      1 - real (i mod 2) * (1 - cos dt)]) [k..<k + m]"
proof (induction m arbitrary: k cp)
  case 0
  show ?case by simp
next
  case (Suc m)
  have step: "[k..<k + Suc m] = k # [Suc k..<Suc k + m]"
    by (simp add: upt_conv_Cons)
  have t: "real k * dt + dt = real (Suc k) * dt"
    by (simp add: algebra_simps)
  show ?case
    unfolding step
    using Suc.IH [of "Suc k" "cp @ [[r * cos (real k * dt), r * sin (real k * dt),
                      1 - real (k mod 2) * (1 - cos dt)]]"]
    by (simp add: t Let_def del: upt_Suc)
qed

lemma build_controlpoints_map:
  "build_controlpoints r dt [0..<n] 0 [] =
     map (\<lambda>i. [r * cos (real i * dt), r * sin (real i * dt),
                1 - real (i mod 2) * (1 - cos dt)]) [0..<n]"
  using build_controlpoints_eq [of r dt 0 n "[]"] by simp

lemma spans_pos:
  assumes "0 < theta"
  shows "1 \<le> \<lceil>theta / (2 * pi / 3)\<rceil>"
proof -
  have "0 < theta / (2 * pi / 3)" using assms by simp
  then show ?thesis by linarith
qed


lemma half_span_angle:
  assumes "0 < theta"
  defines "s \<equiv> \<lceil>theta / (2 * pi / 3)\<rceil>"
  shows "0 < theta / real_of_int s / 2" and "theta / real_of_int s / 2 \<le> pi / 3"
proof -
  have s1: "1 \<le> s" using spans_pos [OF assms(1)] by (simp add: s_def)
  then have sp: "0 < real_of_int s" by simp
  show "0 < theta / real_of_int s / 2" using assms(1) sp by simp
  have "theta / (2 * pi / 3) \<le> real_of_int s" unfolding s_def by (rule le_of_int_ceiling)
  then have "theta \<le> real_of_int s * (2 * pi / 3)"
    by (simp add: pos_divide_le_eq)
  then have "theta / real_of_int s \<le> 2 * pi / 3"
    using sp by (simp add: pos_divide_le_eq mult.commute)
  moreover have "a \<le> 2 * pi / 3 \<Longrightarrow> a / 2 \<le> pi / 3" for a :: real by simp
  ultimately show "theta / real_of_int s / 2 \<le> pi / 3" by blast
qed


lemma alternating_weight:
  "1 - real (i mod 2) * (1 - w) = (if even i then 1 else w)"
  by (cases "even i") (auto simp: odd_iff_mod_2_eq_one)






text \<open>
  The Cartesian control points of the quadratic circle are the corners and the edge
  midpoints of the square around the unit circle.
\<close>

lemma circle_quadratic_cartesian:
  assumes "circle_curve ''p2C0'' = Inr crv"
  shows "map cartesian (controlpoints crv) =
           [[1, 0], [1, 1], [0, 1], [-1, 1], [-1, 0], [-1, -1], [0, -1], [1, -1]]"
  using assms by (auto simp: circle_curve_def Let_def cartesian_def weight_def)




subsection \<open>The two parametrizations of the circle\<close>

text \<open>
  C8.  For a positive radius, \<open>circle\<close> scales and places the curve of \<open>circle_curve\<close>.
  For the quadratic tags that curve is rational with 8 control points, weights
  alternating between 1 and \<open>1 / sqrt 2\<close>, on the periodic basis (continuity 0) of order 3
  with a double knot at every quarter turn; for the quartic tags it is rational with 12
  control points built from \<open>w = 2 sqrt 2 / 3\<close>, \<open>a = 1 / (2 sqrt 2)\<close> and
  \<open>b = (4 sqrt 2 - 1) / 6\<close>, on the periodic basis (continuity 1) of order 5; every other
  tag raises the \<open>ValueError\<close> for an unknown type.
\<close>

theorem circle_parametrizations:
  assumes "0 < r"
  shows
    "circle c r center normal tag =
       and_then (circle_curve tag) (\<lambda>result.
       and_then (imul c result r) (\<lambda>result.
       flip_and_move_plane_geometry c result center normal)) \<and>
     (tag = ''p2C0'' \<or> tag = ''C0p2'' \<longrightarrow>
        (\<exists>cp. circle_curve tag =
                Inr (Curve (BSplineBasis 3
                       (map (\<lambda>k. real_of_int k * (pi / 2)) [-1, 0, 0, 1, 1, 2, 2, 3, 3, 4, 4, 5])
                       (Some 0)) cp True) \<and>
              length cp = 8 \<and>
              map weight cp =
                [1, 1 / sqrt 2, 1, 1 / sqrt 2, 1, 1 / sqrt 2, 1, 1 / sqrt 2])) \<and>
     (tag = ''p4C1'' \<or> tag = ''C1p4'' \<longrightarrow>
        (\<exists>cp. circle_curve tag =
                Inr (Curve (BSplineBasis 5
                       (map (\<lambda>k. real_of_int k * (pi / 2))
                          [-1, -1, 0, 0, 0, 1, 1, 1, 2, 2, 2, 3, 3, 3, 4, 4, 4, 5, 5])
                       (Some 1)) cp True) \<and>
              length cp = 12 \<and>
              cp = (let w = 2 * sqrt 2 / 3; a = 1 / (2 * sqrt 2); b = (4 * sqrt 2 - 1) / 6
                    in [[1, - a, 1], [1, a, 1], [b, b, w], [a, 1, 1], [- a, 1, 1], [- b, b, w],
                        [-1, a, 1], [-1, - a, 1], [- b, - b, w], [- a, -1, 1], [a, -1, 1],
                        [b, - b, w]]))) \<and>
     (tag \<notin> {''p2C0'', ''C0p2'', ''p4C1'', ''C1p4''} \<longrightarrow>
        circle c r center normal tag = Inl (ValueError (''Unkown type: '' @ tag)))"
proof (intro conjI impI)
  show "circle c r center normal tag =
       and_then (circle_curve tag) (\<lambda>result.
       and_then (imul c result r) (\<lambda>result.
       flip_and_move_plane_geometry c result center normal))"
    using assms by (simp add: circle_def)
next
  assume "tag = ''p2C0'' \<or> tag = ''C0p2''"
  then show "\<exists>cp. circle_curve tag =
                Inr (Curve (BSplineBasis 3
                       (map (\<lambda>k. real_of_int k * (pi / 2)) [-1, 0, 0, 1, 1, 2, 2, 3, 3, 4, 4, 5])
                       (Some 0)) cp True) \<and>
              length cp = 8 \<and>
              map weight cp =
                [1, 1 / sqrt 2, 1, 1 / sqrt 2, 1, 1 / sqrt 2, 1, 1 / sqrt 2]"
    by (auto simp: circle_curve_def Let_def weight_def)
next
  assume "tag = ''p4C1'' \<or> tag = ''C1p4''"
  then show "\<exists>cp. circle_curve tag =
                Inr (Curve (BSplineBasis 5
                       (map (\<lambda>k. real_of_int k * (pi / 2))
                          [-1, -1, 0, 0, 0, 1, 1, 1, 2, 2, 2, 3, 3, 3, 4, 4, 4, 5, 5])
                       (Some 1)) cp True) \<and>
              length cp = 12 \<and>
              cp = (let w = 2 * sqrt 2 / 3; a = 1 / (2 * sqrt 2); b = (4 * sqrt 2 - 1) / 6
                    in [[1, - a, 1], [1, a, 1], [b, b, w], [a, 1, 1], [- a, 1, 1], [- b, b, w],
                        [-1, a, 1], [-1, - a, 1], [- b, - b, w], [- a, -1, 1], [a, -1, 1],
                        [b, - b, w]])"
    by (auto simp: circle_curve_def Let_def)
next
  assume "tag \<notin> {''p2C0'', ''C0p2'', ''p4C1'', ''C1p4''}"
  then show "circle c r center normal tag = Inl (ValueError (''Unkown type: '' @ tag))"
    using assms by (simp add: circle_def circle_curve_def and_then_def)
qed


theorem circle_parametrizations_witness:
  "(0::real) < 2 \<and>
   circle reference 2 [0, 0, 0] [0, 0, 1] ''p2C0'' =
     Inr (Curve (BSplineBasis 3
            (map (\<lambda>k. real_of_int k * (pi / 2)) [-1, 0, 0, 1, 1, 2, 2, 3, 3, 4, 4, 5]) (Some 0))
          [[2, 0, 1], [2 / sqrt 2, 2 / sqrt 2, 1 / sqrt 2], [0, 2, 1],
           [- (2 / sqrt 2), 2 / sqrt 2, 1 / sqrt 2], [-2, 0, 1],
           [- (2 / sqrt 2), - (2 / sqrt 2), 1 / sqrt 2], [0, -2, 1],
           [2 / sqrt 2, - (2 / sqrt 2), 1 / sqrt 2]] True) \<and>
   (\<exists>cp. circle_curve ''p4C1'' =
           Inr (Curve (BSplineBasis 5
                  (map (\<lambda>k. real_of_int k * (pi / 2))
                     [-1, -1, 0, 0, 0, 1, 1, 1, 2, 2, 2, 3, 3, 3, 4, 4, 4, 5, 5])
                  (Some 1)) cp True) \<and> length cp = 12) \<and>
   circle reference 2 [0, 0, 0] [0, 0, 1] ''p3C0'' = Inl (ValueError ''Unkown type: p3C0'')"
proof -
  have r: "(0::real) < 2" by simp
  have q: "circle reference 2 [0, 0, 0] [0, 0, 1] ''p2C0'' =
     Inr (Curve (BSplineBasis 3
            (map (\<lambda>k. real_of_int k * (pi / 2)) [-1, 0, 0, 1, 1, 2, 2, 3, 3, 4, 4, 5]) (Some 0))
          [[2, 0, 1], [2 / sqrt 2, 2 / sqrt 2, 1 / sqrt 2], [0, 2, 1],
           [- (2 / sqrt 2), 2 / sqrt 2, 1 / sqrt 2], [-2, 0, 1],
           [- (2 / sqrt 2), - (2 / sqrt 2), 1 / sqrt 2], [0, -2, 1],
           [2 / sqrt 2, - (2 / sqrt 2), 1 / sqrt 2]] True)"
    by (simp add: circle_def circle_curve_def and_then_def reference_def ref_imul_def
          ref_flip_and_move_def Let_def)
  have u: "circle reference 2 [0, 0, 0] [0, 0, 1] ''p3C0'' = Inl (ValueError ''Unkown type: p3C0'')"
    using circle_parametrizations [OF r, of reference "[0, 0, 0]" "[0, 0, 1]" "''p3C0''"]
    by auto
  show ?thesis
    using r q u circle_parametrizations [OF r, of reference "[0, 0, 0]" "[0, 0, 1]" "''p4C1''"]
    by auto
qed

subsection \<open>\<open>circle_segment\<close> on a negative angle\<close>

text \<open>
  For an angle strictly between 0 and \<open>2 pi\<close> the function does build the arc: the least
  number of spans of at most \<open>2 pi / 3\<close>, the open knot vector of order 3 with double
  interior knots, and \<open>2 spans + 1\<close> control points at the polar angles \<open>i dt\<close>, with
  weights alternating between 1 and \<open>cos dt\<close>.
\<close>

lemma circle_segment_positive:
  fixes theta r :: real
  assumes "0 < theta" "theta < 2 * pi" "0 < r"
  defines "spans \<equiv> \<lceil>theta / (2 * pi / 3)\<rceil>"
  defines "dt \<equiv> theta / real_of_int spans / 2"
  shows "circle_segment c theta r center normal =
           flip_and_move_plane_geometry c
             (Curve (BSplineBasis 3
                       (map (\<lambda>k. real_of_int k / real_of_int spans * theta)
                            ([0] @ concat (map (\<lambda>i. [i, i]) [0..spans]) @ [spans])) None)
                    (map (\<lambda>i. [r * cos (real i * dt), r * sin (real i * dt),
                               if even i then 1 else cos dt])
                         [0..<2 * nat spans + 1])
                    True)
             center normal"
    and "1 \<le> spans"
    and "theta / real_of_int spans \<le> 2 * pi / 3"
    and "\<And>m::int. 0 < m \<Longrightarrow> theta / real_of_int m \<le> 2 * pi / 3 \<Longrightarrow> spans \<le> m"
proof -
  show s1: "1 \<le> spans" unfolding spans_def using assms(1) by (rule spans_pos)
  have "theta / real_of_int spans / 2 \<le> pi / 3"
    unfolding spans_def using assms(1) by (rule half_span_angle(2))
  moreover have "a / 2 \<le> pi / 3 \<Longrightarrow> a \<le> 2 * pi / 3" for a :: real by simp
  ultimately show "theta / real_of_int spans \<le> 2 * pi / 3" by blast
  show "spans \<le> m" if m: "0 < m" "theta / real_of_int m \<le> 2 * pi / 3" for m :: int
  proof -
    have "theta \<le> real_of_int m * (2 * pi / 3)"
      using m by (simp add: pos_divide_le_eq mult.commute)
    then have "theta / (2 * pi / 3) \<le> real_of_int m"
      by (simp add: pos_divide_le_eq)
    then show ?thesis unfolding spans_def by (simp add: ceiling_le_iff)
  qed
  have n: "nat ((spans - 1) * 2 + 3) = 2 * nat spans + 1"
    using s1 by simp
  have s0: "spans \<noteq> 0" using s1 by simp
  have n': "nat (1 + spans * 2) = Suc (2 * nat spans)"
    using s1 by simp
  have "segment_curve theta r =
          (let knot = [0] @ concat (map (\<lambda>i. [i, i]) [0..spans]) @ [spans];
               knot = map (\<lambda>k. real_of_int k / real_of_int (last knot) * theta) knot;
               n = (spans - 1) * 2 + 3
           in if spans = 0 then Inl (ZeroDivisionError ''float division by zero'')
              else
                let dt = theta / real_of_int spans / 2;
                    cp = build_controlpoints r dt [0..<nat n] 0 []
                in Inr (Curve (BSplineBasis 3 knot None) cp True))"
    by (simp only: segment_curve_def Let_def flip: spans_def)
  then have sc: "segment_curve theta r =
      Inr (Curve (BSplineBasis 3
                       (map (\<lambda>k. real_of_int k / real_of_int spans * theta)
                            ([0] @ concat (map (\<lambda>i. [i, i]) [0..spans]) @ [spans])) None)
                    (map (\<lambda>i. [r * cos (real i * dt), r * sin (real i * dt),
                               if even i then 1 else cos dt])
                         [0..<2 * nat spans + 1])
                    True)"
    using s0 n' by (simp add: Let_def dt_def build_controlpoints_map alternating_weight
        del: upt_Suc cong: if_cong)
  have "\<not> 2 * pi < \<bar>theta\<bar>" "theta \<noteq> 2 * pi" "\<not> r \<le> 0"
    using assms(1-3) by simp_all
  then show "circle_segment c theta r center normal =
           flip_and_move_plane_geometry c
             (Curve (BSplineBasis 3
                       (map (\<lambda>k. real_of_int k / real_of_int spans * theta)
                            ([0] @ concat (map (\<lambda>i. [i, i]) [0..spans]) @ [spans])) None)
                    (map (\<lambda>i. [r * cos (real i * dt), r * sin (real i * dt),
                               if even i then 1 else cos dt])
                         [0..<2 * nat spans + 1])
                    True)
             center normal"
    unfolding circle_segment_def sc by (simp add: and_then_def)
qed

text \<open>
  C5.  The angle \<open>- pi / 2\<close> passes the test \<open>abs(theta) > 2 * pi\<close>, the number of knot
  spans is \<open>ceil(-3/4) = 0\<close>, and the angle step divides by it: the call raises
  \<open>ZeroDivisionError\<close> instead of building an arc of one span.
\<close>

theorem circle_segment_negative_angle:
  "circle_segment c (- pi / 2) 1 center normal =
     Inl (ZeroDivisionError ''float division by zero'')"
proof -
  have "- pi / 2 \<noteq> 2 * pi" using pi_gt_zero by linarith
  then show ?thesis
    by (simp add: circle_segment_def segment_curve_def and_then_def Let_def)
qed



subsection \<open>\<open>polygon\<close> with relative points\<close>

text \<open>
  Without \<open>relative\<close>, the knot vector is the cumulative chord length of the points, with
  the first and the last knot repeated once.
\<close>

lemma polygon_knot_length:
  "length (polygon_knot knot prevPt pts) = length knot + length pts"
  by (induction pts arbitrary: knot prevPt) simp_all

lemma polygon_knot_prefix:
  "i < length knot \<Longrightarrow> polygon_knot knot prevPt pts ! i = knot ! i"
  by (induction pts arbitrary: knot prevPt) (simp_all add: nth_append)

lemma polygon_knot_step:
  assumes "knot \<noteq> []" and "i < length pts"
  shows "polygon_knot knot prevPt pts ! (length knot + i) -
           polygon_knot knot prevPt pts ! (length knot + i - 1) =
         sqrt (sqdist ((prevPt # pts) ! i) (pts ! i))"
  using assms
proof (induction pts arbitrary: knot prevPt i)
  case Nil
  then show ?case by simp
next
  case (Cons pt pts)
  let ?knot = "knot @ [last knot + sqrt (sqdist prevPt pt)]"
  show ?case
  proof (cases i)
    case 0
    have "polygon_knot ?knot pt pts ! length knot = ?knot ! length knot"
      by (rule polygon_knot_prefix) simp
    moreover have "polygon_knot ?knot pt pts ! (length knot - 1) = ?knot ! (length knot - 1)"
      using Cons.prems(1) by (intro polygon_knot_prefix) simp
    moreover have "?knot ! (length knot - 1) = last knot"
      using Cons.prems(1) by (simp add: nth_append last_conv_nth)
    ultimately show ?thesis using 0 by simp
  next
    case (Suc j)
    have "polygon_knot ?knot pt pts ! (length ?knot + j) -
            polygon_knot ?knot pt pts ! (length ?knot + j - 1) =
          sqrt (sqdist ((pt # pts) ! j) (pts ! j))"
      using Cons.prems(2) Suc by (intro Cons.IH) simp_all
    then show ?thesis using Suc by simp
  qed
qed

lemma polygon_chord_length:
  assumes "points = p0 # rest"
  shows "\<exists>knot. polygon points False = Inr (Curve (BSplineBasis 2 knot None) points False) \<and>
           length knot = length points + 2 \<and> knot ! 0 = 0 \<and> knot ! 1 = 0 \<and>
           (\<forall>i < length rest.
              knot ! (i + 2) - knot ! (i + 1) = sqrt (sqdist (points ! i) (points ! (i + 1)))) \<and>
           knot ! (length points + 1) = knot ! length points"
proof -
  define k where "k = polygon_knot [0, 0] p0 rest"
  have len: "length k = length rest + 2"
    by (simp add: k_def polygon_knot_length)
  then have ne: "k \<noteq> []" by auto
  have p: "polygon points False = Inr (Curve (BSplineBasis 2 (k @ [last k]) None) points False)"
    by (simp add: polygon_def assms k_def Let_def)
  have k0: "k ! 0 = 0" "k ! 1 = 0"
    unfolding k_def by (simp_all add: polygon_knot_prefix)
  have step: "k ! (i + 2) - k ! (i + 1) = sqrt (sqdist (points ! i) (points ! (i + 1)))"
    if "i < length rest" for i
    using polygon_knot_step [of "[0, 0]" i rest p0] that by (simp add: k_def assms)
  have "(k @ [last k]) ! (length points + 1) = (k @ [last k]) ! length points"
    using len ne by (simp add: assms nth_append last_conv_nth)
  moreover have "\<forall>i < length rest. (k @ [last k]) ! (i + 2) - (k @ [last k]) ! (i + 1) =
                   sqrt (sqdist (points ! i) (points ! (i + 1)))"
    using step len by (simp add: nth_append)
  ultimately show ?thesis
    using p k0 len by (intro exI [of _ "k @ [last k]"]) (simp add: assms nth_append)
qed


text \<open>
  C9.  With \<open>relative=True\<close> the knot vector is computed from the raw offsets before they
  are accumulated.  For the offsets \<open>(0,0), (3,0), (1,0)\<close> the curve's points are
  \<open>(0,0), (3,0), (4,0)\<close>; the last two are at distance 1, but the knots are
  \<open>0, 0, 3, 5, 5\<close> and the knot spacing between them is 2, the distance between the
  offsets.
\<close>

theorem polygon_relative_knots:
  "polygon [[0, 0], [3, 0], [1, 0]] True =
     Inr (Curve (BSplineBasis 2 [0, 0, 3, 5, 5] None) [[0, 0], [3, 0], [4, 0]] False) \<and>
   sqrt (sqdist [3, 0] [4, 0]) = 1 \<and>
   [0, 0, 3, 5, 5 :: real] ! 3 - [0, 0, 3, 5, 5] ! 2 = 2"
proof -
  have "sqrt 9 = 3"
    using real_sqrt_abs [of 3] by simp
  then show ?thesis
    by (simp add: polygon_def sqdist_def)
qed

subsection \<open>The stages of \<open>cubic_curve\<close>\<close>

lemma and_then_Inl [simp]: "and_then (Inl e) f = Inl e"
  by (simp add: and_then_def)

lemma and_then_Inr [simp]: "and_then (Inr v) f = f v"
  by (simp add: and_then_def)

lemma and_then_assoc:
  "and_then (and_then r f) g = and_then r (\<lambda>v. and_then (f v) g)"
  by (cases r) simp_all

lemma cubic_knot_plain:
  "t \<noteq> [] \<Longrightarrow> boundary \<noteq> FREE \<Longrightarrow> boundary \<noteq> HERMITE \<Longrightarrow>
     cubic_knot boundary t = Inr (padded t)"
  by (simp add: cubic_knot_def)

lemma cubic_knot_empty: "cubic_knot boundary [] = Inl (IndexError ''list index out of range'')"
  by (simp add: cubic_knot_def)

lemma cubic_basis_plain:
  "boundary \<noteq> PERIODIC \<Longrightarrow> cubic_basis boundary t knot = Inr (BSplineBasis 4 knot None)"
  by (simp add: cubic_basis_def)

lemma derivative_conditions_hermite:
  "derivative_conditions c HERMITE basis t n tangents N x =
     Inl (NameError ''name getBasis is not defined'')"
  by (simp add: derivative_conditions_def)

lemma length_np_resize [simp]: "length (np_resize a rows cols) = rows"
  by (simp add: np_resize_def Let_def)

lemma set_rows_from_mismatch:
  "length v \<noteq> length a - n \<Longrightarrow> length v \<noteq> 1 \<Longrightarrow>
     set_rows_from a n v = Inl (ValueError ''could not broadcast input array'')"
  by (simp add: set_rows_from_def shape0_def)

lemma append_rows_mismatch:
  assumes "length tangents \<noteq> new" "length tangents \<noteq> 1"
  shows "append_rows N (NdArray m) (length m) new tangents =
           (\<lambda>dn. Inl (ValueError ''could not broadcast input array''))"
proof
  fix dn
  have "set_rows_from (np_resize m (shape0 m + new) (shape1 m)) (length m) tangents =
          Inl (ValueError ''could not broadcast input array'')"
    using assms by (intro set_rows_from_mismatch) (simp_all add: shape0_def)
  then show "append_rows N (NdArray m) (length m) new tangents dn =
           Inl (ValueError ''could not broadcast input array'')"
    by (simp add: append_rows_def resize_points_def)
qed




text \<open>
  Values of the reference collaborators on the cubic basis of one span, and on the
  \<open>HERMITE\<close> knot vector of three samples.
\<close>

lemma padded_unit: "padded [0, 1] = [0, 0, 0, 0, 1, 1, 1, 1]"
  by (simp add: padded_def numeral_3_eq_3)

lemma bezier_values:
  "evaluate reference (BSplineBasis 4 [0, 0, 0, 0, 1, 1, 1, 1] None) [0, 1] 0 =
     Inr [[1, 0, 0, 0], [0, 0, 0, 1]]"
  by code_simp

lemma bezier_derivatives:
  "evaluate reference (BSplineBasis 4 [0, 0, 0, 0, 1, 1, 1, 1] None) [0, 1] 1 =
     Inr [[-3, 3, 0, 0], [0, 0, -3, 3]]"
  by code_simp

lemma bezier_start_derivative:
  "evaluate reference (BSplineBasis 4 [0, 0, 0, 0, 1, 1, 1, 1] None) [0] 1 =
     Inr [[-3, 3, 0, 0]]"
  by code_simp


lemma hermite_knot: "cubic_knot HERMITE [0, 1, 2] = Inr [0, 0, 0, 0, 1, 1, 2, 2, 2, 2]"
  by code_simp

lemma hermite_basis:
  "cubic_basis HERMITE [0, 1, 2] [0, 0, 0, 0, 1, 1, 2, 2, 2, 2] =
     Inr (BSplineBasis 4 [0, 0, 0, 0, 1, 1, 2, 2, 2, 2] None)"
  by code_simp

lemma hermite_values:
  "evaluate reference (BSplineBasis 4 [0, 0, 0, 0, 1, 1, 2, 2, 2, 2] None) [0, 1, 2] 0 =
     Inr [[1, 0, 0, 0, 0, 0], [0, 0, 1 / 2, 1 / 2, 0, 0], [0, 0, 0, 0, 0, 1]]"
  by code_simp


subsection \<open>The \<open>HERMITE\<close> regime\<close>

text \<open>
  C2.  In the \<open>HERMITE\<close> branch the derivative rows are computed by a call of \<open>getBasis\<close>,
  a name that is bound nowhere: no call with this regime returns a curve.  With three
  points, their three parameter values and three tangents the knot vector and the basis
  are built, the basis is evaluated, and the call raises \<open>NameError\<close>; no row is
  appended and no system is solved.
\<close>

theorem hermite_raises_name_error:
  "(\<exists>e. cubic_curve c x HERMITE t tangents = Inl e) \<and>
   cubic_curve reference (NdArray [[0, 0], [1, 1], [2, 0]]) HERMITE (Some [0, 1, 2])
     [[1, 0], [1, 0], [1, 0]] = Inl (NameError ''name getBasis is not defined'')"
proof
  show "\<exists>e. cubic_curve c x HERMITE t tangents = Inl e"
    by (auto simp: cubic_curve_def Let_def and_then_def derivative_conditions_hermite
        split: sum.splits)
next
  show "cubic_curve reference (NdArray [[0, 0], [1, 1], [2, 0]]) HERMITE (Some [0, 1, 2])
     [[1, 0], [1, 0], [1, 0]] = Inl (NameError ''name getBasis is not defined'')"
    by (simp add: cubic_curve_def parameter_sample_def hermite_knot hermite_basis
          hermite_values derivative_conditions_hermite)
qed

subsection \<open>The row count of the tangent matrix\<close>

text \<open>
  C4, as the claim states it, fails: \<open>cubic_curve\<close> has no test of the tangent matrix.
  With the regime \<open>TANGENT\<close> and one tangent row, the assignment \<open>x[n:,:] = tangents\<close>
  broadcasts the row to both appended rows and the call returns a curve.
\<close>

theorem single_tangent_row_accepted:
  "cubic_curve reference (NdArray [[0, 0], [1, 0]]) TANGENT (Some [0, 1]) [[1, 0]] =
     Inr (Curve (BSplineBasis 4 [0, 0, 0, 0, 1, 1, 1, 1] None)
            [[0, 0], [1 / 3, 0], [2 / 3, 0], [1, 0]] False)"
proof -
  let ?b = "BSplineBasis 4 [0, 0, 0, 0, 1, 1, 1, 1] None"
  have k: "cubic_knot TANGENT [0, 1] = Inr [0, 0, 0, 0, 1, 1, 1, 1]"
    by code_simp
  have b: "cubic_basis TANGENT [0, 1] [0, 0, 0, 0, 1, 1, 1, 1] = Inr ?b"
    by code_simp
  have d: "derivative_conditions reference TANGENT ?b [0, 1] (Suc (Suc 0)) [[1, 0]]
             [[1, 0, 0, 0], [0, 0, 0, 1]] (NdArray [[0, 0], [1, 0]]) =
           Inr ([[1, 0, 0, 0], [0, 0, 0, 1], [-3, 3, 0, 0], [0, 0, -3, 3]],
                NdArray [[0, 0], [1, 0], [1, 0], [1, 0]])"
    by code_simp
  have s: "second_derivative_conditions reference TANGENT ?b [0, 1]
             [[1, 0, 0, 0], [0, 0, 0, 1], [-3, 3, 0, 0], [0, 0, -3, 3]]
             (NdArray [[0, 0], [1, 0], [1, 0], [1, 0]]) =
           Inr ([[1, 0, 0, 0], [0, 0, 0, 1], [-3, 3, 0, 0], [0, 0, -3, 3]],
                NdArray [[0, 0], [1, 0], [1, 0], [1, 0]])"
    by code_simp
  have v: "solve reference [[1, 0, 0, 0], [0, 0, 0, 1], [-3, 3, 0, 0], [0, 0, -3, 3]]
             [[0, 0], [1, 0], [1, 0], [1, 0]] =
           Inr [[0, 0], [1 / 3, 0], [2 / 3, 0], [1, 0]]"
    by code_simp
  show ?thesis
    by (simp add: cubic_curve_def parameter_sample_def k b bezier_values d s v)
qed


text \<open>
  C4, amended.  For an array \<open>x\<close> and a parameter sample \<open>t\<close> that is not empty, the basis
  is built and evaluated first (an error of the evaluation is the error of the call);
  then a tangent matrix whose row count is neither 1 nor the number of appended rows
  (2 for \<open>TANGENT\<close>, 1 for \<open>TANGENTNATURAL\<close>) makes the assignment
  \<open>x[n:,:] = tangents\<close> raise numpy's broadcast \<open>ValueError\<close>, and no curve is returned.
\<close>

theorem tangent_rows_checked_by_broadcast:
  assumes "parameter_sample (NdArray m) topt = Inr t" and "t \<noteq> []"
    and "length tangents \<noteq> 1"
  shows "(length tangents \<noteq> 2 \<longrightarrow>
            cubic_curve c (NdArray m) TANGENT topt tangents =
              and_then (evaluate c (BSplineBasis 4 (padded t) None) t 0) (\<lambda>N.
              and_then (evaluate c (BSplineBasis 4 (padded t) None) [hd t, last t] 1) (\<lambda>dn.
              Inl (ValueError ''could not broadcast input array'')))) \<and>
         cubic_curve c (NdArray m) TANGENTNATURAL topt tangents =
           and_then (evaluate c (BSplineBasis 4 (padded t) None) t 0) (\<lambda>N.
           and_then (evaluate c (BSplineBasis 4 (padded t) None) [hd t] 1) (\<lambda>dn.
           Inl (ValueError ''could not broadcast input array'')))"
proof (intro conjI impI)
  assume "length tangents \<noteq> 2"
  then show "cubic_curve c (NdArray m) TANGENT topt tangents =
              and_then (evaluate c (BSplineBasis 4 (padded t) None) t 0) (\<lambda>N.
              and_then (evaluate c (BSplineBasis 4 (padded t) None) [hd t, last t] 1) (\<lambda>dn.
              Inl (ValueError ''could not broadcast input array'')))"
    using assms
    by (simp add: cubic_curve_def cubic_knot_plain cubic_basis_plain
          derivative_conditions_def append_rows_mismatch and_then_assoc)
next
  show "cubic_curve c (NdArray m) TANGENTNATURAL topt tangents =
           and_then (evaluate c (BSplineBasis 4 (padded t) None) t 0) (\<lambda>N.
           and_then (evaluate c (BSplineBasis 4 (padded t) None) [hd t] 1) (\<lambda>dn.
           Inl (ValueError ''could not broadcast input array'')))"
    using assms
    by (simp add: cubic_curve_def cubic_knot_plain cubic_basis_plain
          derivative_conditions_def append_rows_mismatch and_then_assoc)
qed



theorem tangent_rows_checked_by_broadcast_witness:
  "parameter_sample (NdArray [[0, 0], [1, 0]]) (Some [0, 1]) = Inr [0, 1] \<and>
   [0, 1 :: real] \<noteq> [] \<and>
   length [[1, 0], [1, 0], [1, 0 :: real]] \<noteq> 1 \<and>
   length [[1, 0], [1, 0], [1, 0 :: real]] \<noteq> 2 \<and>
   cubic_curve reference (NdArray [[0, 0], [1, 0]]) TANGENT (Some [0, 1])
     [[1, 0], [1, 0], [1, 0]] = Inl (ValueError ''could not broadcast input array'') \<and>
   cubic_curve reference (NdArray [[0, 0], [1, 0]]) TANGENTNATURAL (Some [0, 1])
     [[1, 0], [1, 0], [1, 0]] = Inl (ValueError ''could not broadcast input array'')"
proof -
  have p: "parameter_sample (NdArray [[0, 0], [1, 0]]) (Some [0, 1]) = Inr [0, 1]"
    by (simp add: parameter_sample_def)
  have t: "[0, 1 :: real] \<noteq> []" by simp
  have l: "length [[1, 0], [1, 0], [1, 0 :: real]] \<noteq> 1" by simp
  show ?thesis
    using tangent_rows_checked_by_broadcast [OF p t l, of reference]
    by (simp add: p padded_unit bezier_values bezier_derivatives bezier_start_derivative
          del: One_nat_def)
qed


subsection \<open>A plain list as point matrix\<close>




subsection \<open>The knot vector of the \<open>FREE\<close> regime\<close>

lemma length_padded [simp]: "length (padded t) = length t + 6"
  by (simp add: padded_def)

lemma py_del_neg:
  "0 < k \<Longrightarrow> k \<le> length xs \<Longrightarrow>
     py_del xs (- int k) = Inr (take (length xs - k) xs @ drop (Suc (length xs - k)) xs)"
  by (simp add: py_del_def py_index_def nat_diff_distrib' of_nat_diff)

lemma py_del_pos:
  "k < length xs \<Longrightarrow> py_del xs (int k) = Inr (take k xs @ drop (Suc k) xs)"
  by (simp add: py_del_def py_index_def)

lemma cubic_knot_free:
  assumes "t \<noteq> []"
  defines "knot \<equiv> take (length t + 1) (padded t) @ drop (Suc (length t + 1)) (padded t)"
  shows "cubic_knot FREE t = Inr (take 4 knot @ drop (Suc 4) knot)"
proof -
  have a: "py_del (padded t) (- 5) = Inr knot"
    using py_del_neg [of 5 "padded t"] by (simp add: knot_def)
  have "4 < length knot"
    by (simp add: knot_def)
  then have b: "py_del knot 4 = Inr (take 4 knot @ drop (Suc 4) knot)"
    using py_del_pos [of 4 knot] by simp
  show ?thesis using assms(1) by (simp add: cubic_knot_def a b)
qed

lemma delete_one_nths:
  "i < length xs \<Longrightarrow> take i xs @ drop (Suc i) xs = nths xs (- {i})"
proof (induction xs arbitrary: i)
  case Nil
  then show ?case by simp
next
  case (Cons x xs)
  show ?case
  proof (cases i)
    case 0
    have "{j. Suc j \<in> - {0::nat}} = UNIV" by auto
    moreover have "nths xs UNIV = xs" by (rule nths_all) simp
    ultimately show ?thesis using 0 by (simp add: nths_Cons)
  next
    case (Suc k)
    have "{j. Suc j \<in> - {Suc k}} = - {k}" by auto
    then show ?thesis using Suc Cons by (simp add: nths_Cons)
  qed
qed

lemma delete_two_nths:
  "i < j \<Longrightarrow> j < length xs \<Longrightarrow>
     take i (take j xs @ drop (Suc j) xs) @ drop (Suc i) (take j xs @ drop (Suc j) xs) =
       nths xs (- {i, j})"
proof (induction xs arbitrary: i j)
  case Nil
  then show ?case by simp
next
  case (Cons x xs)
  obtain j' where j: "j = Suc j'" using Cons.prems(1) by (cases j) auto
  show ?case
  proof (cases i)
    case 0
    have "{k. Suc k \<in> - {0, Suc j'}} = - {j'}" by auto
    then show ?thesis
      using 0 j Cons.prems delete_one_nths [of j' xs] by (simp add: nths_Cons)
  next
    case (Suc i')
    have "{k. Suc k \<in> - {Suc i', Suc j'}} = - {i', j'}" by auto
    then show ?thesis
      using Suc j Cons.prems Cons.IH [of i' j'] by (simp add: nths_Cons)
  qed
qed


lemma padded_two: "padded [a, b] = [a, a, a, a, b, b, b, b]"
  by (simp add: padded_def numeral_3_eq_3)

lemma padded_three: "padded [a, b, c] = [a, a, a, a, b, c, c, c, c]"
  by (simp add: padded_def numeral_3_eq_3)

lemma remove_positions_two:
  "i < j \<Longrightarrow> j < length xs \<Longrightarrow>
     remove_positions {i, j} xs =
       take i (take j xs @ drop (Suc j) xs) @ drop (Suc i) (take j xs @ drop (Suc j) xs)"
  by (simp only: remove_positions_def delete_two_nths)

lemma free_knot_positions:
  assumes "2 \<le> length t"
  shows "cubic_knot FREE t =
           Inr (if length t = 3 then remove_positions {4, 5} (padded t)
                else remove_positions {4, length (padded t) - 5} (padded t))"
proof -
  have ne: "t \<noteq> []" using assms by auto
  consider "length t = 2" | "length t = 3" | "4 \<le> length t" using assms by linarith
  then show ?thesis
  proof cases
    case 1
    then obtain a b where t: "t = [a, b]"
      by (cases t; cases "tl t"; cases "tl (tl t)") auto
    have k: "cubic_knot FREE t = Inr [a, a, a, b, b, b]"
      using cubic_knot_free [OF ne] by (simp add: t padded_two)
    have "length (padded t) - 5 = 3" by (simp add: t)
    moreover have "{4, 3} = {3, 4::nat}" by auto
    ultimately have "remove_positions {4, length (padded t) - 5} (padded t) =
                       remove_positions {3, 4} (padded t)"
      by (simp only:)
    also have "\<dots> = [a, a, a, b, b, b]"
      using remove_positions_two [of 3 4 "padded t"] by (simp add: t padded_two)
    finally show ?thesis using 1 k by simp
  next
    case 2
    then obtain a b c where t: "t = [a, b, c]"
      by (cases t; cases "tl t"; cases "tl (tl t)"; cases "tl (tl (tl t))") auto
    have k: "cubic_knot FREE t = Inr [a, a, a, a, c, c, c]"
      using cubic_knot_free [OF ne] by (simp add: t padded_three)
    have "remove_positions {4, 5} (padded t) = [a, a, a, a, c, c, c]"
      using remove_positions_two [of 4 5 "padded t"] by (simp add: t padded_three)
    then show ?thesis using 2 k by simp
  next
    case 3
    have "length (padded t) - 5 = length t + 1" by simp
    then have "remove_positions {4, length (padded t) - 5} (padded t) =
            take 4 (take (length t + 1) (padded t) @ drop (Suc (length t + 1)) (padded t)) @
            drop (Suc 4) (take (length t + 1) (padded t) @ drop (Suc (length t + 1)) (padded t))"
      using 3 remove_positions_two [of 4 "length t + 1" "padded t"] by simp
    moreover have "length t \<noteq> 3" using 3 by simp
    ultimately show ?thesis
      using cubic_knot_free [OF ne] by (simp only: if_False)
  qed
qed

lemma cubic_knot_free_length:
  assumes "t \<noteq> []" and "cubic_knot FREE t = Inr knot"
  shows "length knot = length t + 4"
  using assms cubic_knot_free [OF assms(1)] by auto

lemma cubic_curve_no_extra_rows:
  assumes "boundary = FREE \<or> boundary = PERIODIC"
    and "parameter_sample x topt = Inr t"
    and "cubic_knot boundary t = Inr knot"
    and "cubic_basis boundary t knot = Inr basis"
  shows "cubic_curve c x boundary topt tangents =
           and_then (evaluate c basis t 0) (\<lambda>N.
           and_then (solve c N (rows_of x)) (\<lambda>cp.
           Inr (Curve basis cp False)))"
  using assms
  by (auto simp: cubic_curve_def derivative_conditions_def second_derivative_conditions_def)


text \<open>
  C6, as the claim states it, fails for three samples: the padded sequence has nine
  knots, index 4 and index -5 are the same position, and the two deletions of the source
  (\<open>del knot[-5]\<close>, then \<open>del knot[4]\<close> on the shortened list) remove the knots at the
  positions 4 and 5.  Seven knots remain, not the eight that remain when the knot at
  position 4 is removed.
\<close>

theorem free_knot_three_samples:
  "cubic_knot FREE [0, 1, 2] = Inr [0, 0, 0, 0, 2, 2, 2] \<and>
   remove_positions {4, length (padded [0, 1, 2 :: real]) - 5} (padded [0, 1, 2]) =
     [0, 0, 0, 0, 2, 2, 2, 2]"
proof
  show "cubic_knot FREE [0, 1, 2] = Inr [0, 0, 0, 0, 2, 2, 2]"
    by code_simp
next
  have "length (padded [0, 1, 2 :: real]) - 5 = 4" by simp
  then have "remove_positions {4, length (padded [0, 1, 2 :: real]) - 5} (padded [0, 1, 2]) =
          nths (padded [0, 1, 2]) (- {4})"
    by (simp add: remove_positions_def)
  also have "\<dots> = take 4 (padded [0, 1, 2]) @ drop (Suc 4) (padded [0, 1, 2])"
    by (rule delete_one_nths [symmetric]) simp
  also have "\<dots> = [0, 0, 0, 0, 2, 2, 2, 2]"
    by (simp add: padded_three)
  finally show "remove_positions {4, length (padded [0, 1, 2 :: real]) - 5} (padded [0, 1, 2]) =
     [0, 0, 0, 0, 2, 2, 2, 2]" .
qed


text \<open>
  C6, amended.  For \<open>n \<ge> 2\<close> samples the padded sequence is \<open>t\<close> with three more copies
  of its first entry in front and three more copies of its last entry behind, \<open>n + 6\<close>
  knots.  The knot vector is the padded sequence without the knots at the positions 4
  and -5, except for \<open>n = 3\<close>, where these positions coincide and the knots at the
  positions 4 and 5 are removed; it has \<open>n + 4\<close> knots, and the curve is the solution of
  the system of the order-4 basis on it, with no further row.
\<close>

theorem free_knot_vector:
  assumes "parameter_sample x topt = Inr t" and "2 \<le> length t"
  shows "padded t = replicate 3 (t ! 0) @ t @ replicate 3 (t ! (length t - 1)) \<and>
         length (padded t) = length t + 6 \<and>
         (let knot = (if length t = 3 then remove_positions {4, 5} (padded t)
                      else remove_positions {4, length (padded t) - 5} (padded t));
              basis = BSplineBasis 4 knot None
          in cubic_knot FREE t = Inr knot \<and> length knot = length t + 4 \<and>
             cubic_curve c x FREE topt tangents =
               and_then (evaluate c basis t 0) (\<lambda>N.
               and_then (solve c N (rows_of x)) (\<lambda>cp.
               Inr (Curve basis cp False))))"
proof -
  have ne: "t \<noteq> []" using assms(2) by auto
  have p: "padded t = replicate 3 (t ! 0) @ t @ replicate 3 (t ! (length t - 1))"
    using ne by (simp add: padded_def hd_conv_nth last_conv_nth)
  define knot where "knot = (if length t = 3 then remove_positions {4, 5} (padded t)
                      else remove_positions {4, length (padded t) - 5} (padded t))"
  have k: "cubic_knot FREE t = Inr knot"
    unfolding knot_def using assms(2) by (rule free_knot_positions)
  have l: "length knot = length t + 4"
    using ne k by (rule cubic_knot_free_length)
  have b: "cubic_basis FREE t knot = Inr (BSplineBasis 4 knot None)"
    by (simp add: cubic_basis_def)
  have "cubic_curve c x FREE topt tangents =
               and_then (evaluate c (BSplineBasis 4 knot None) t 0) (\<lambda>N.
               and_then (solve c N (rows_of x)) (\<lambda>cp.
               Inr (Curve (BSplineBasis 4 knot None) cp False)))"
    using assms(1) k b by (intro cubic_curve_no_extra_rows) simp_all
  then show ?thesis
    using p k l by (simp add: Let_def knot_def)
qed


lemma free_sample_values:
  "evaluate reference (BSplineBasis 4 [0, 0, 0, 0, 3, 3, 3, 3] None) [0, 1, 2, 3] 0 =
     Inr [[1, 0, 0, 0], [8 / 27, 4 / 9, 2 / 9, 1 / 27], [1 / 27, 2 / 9, 4 / 9, 8 / 27],
          [0, 0, 0, 1]]"
  by code_simp

lemma free_sample_solution:
  "solve reference [[1, 0, 0, 0], [8 / 27, 4 / 9, 2 / 9, 1 / 27],
                    [1 / 27, 2 / 9, 4 / 9, 8 / 27], [0, 0, 0, 1]]
     [[0, 0], [1, 1], [2, 0], [3, 1]] =
   Inr [[0, 0], [1, 10 / 3], [2, - (7 / 3)], [3, 1]]"
  by code_simp

theorem free_knot_vector_witness:
  "parameter_sample (NdArray [[0, 0], [1, 1], [2, 0], [3, 1]]) (Some [0, 1, 2, 3]) =
     Inr [0, 1, 2, 3] \<and>
   2 \<le> length [0, 1, 2, 3 :: real] \<and>
   length (padded [0, 1, 2, 3 :: real]) = 10 \<and>
   cubic_knot FREE [0, 1, 2, 3] = Inr [0, 0, 0, 0, 3, 3, 3, 3] \<and>
   cubic_curve reference (NdArray [[0, 0], [1, 1], [2, 0], [3, 1]]) FREE (Some [0, 1, 2, 3]) [] =
     Inr (Curve (BSplineBasis 4 [0, 0, 0, 0, 3, 3, 3, 3] None)
            [[0, 0], [1, 10 / 3], [2, - (7 / 3)], [3, 1]] False)"
proof -
  have p: "parameter_sample (NdArray [[0, 0], [1, 1], [2, 0], [3, 1]]) (Some [0, 1, 2, 3]) =
     Inr [0, 1, 2, 3]"
    by (simp add: parameter_sample_def)
  have l: "2 \<le> length [0, 1, 2, 3 :: real]" by simp
  have k: "cubic_knot FREE [0, 1, 2, 3] = Inr [0, 0, 0, 0, 3, 3, 3, 3]"
    by code_simp
  obtain knot where kk: "cubic_knot FREE [0, 1, 2, 3] = Inr knot"
    and cc: "cubic_curve reference (NdArray [[0, 0], [1, 1], [2, 0], [3, 1]]) FREE
               (Some [0, 1, 2, 3]) [] =
             and_then (evaluate reference (BSplineBasis 4 knot None) [0, 1, 2, 3] 0) (\<lambda>N.
             and_then (solve reference N (rows_of (NdArray [[0, 0], [1, 1], [2, 0], [3, 1]])))
               (\<lambda>cp. Inr (Curve (BSplineBasis 4 knot None) cp False)))"
    and pl: "length (padded [0, 1, 2, 3 :: real]) = length [0, 1, 2, 3 :: real] + 6"
    using free_knot_vector [OF p l, of reference "[]"] unfolding Let_def by blast
  have "knot = [0, 0, 0, 0, 3, 3, 3, 3]" using k kk by simp
  then have "cubic_curve reference (NdArray [[0, 0], [1, 1], [2, 0], [3, 1]]) FREE
               (Some [0, 1, 2, 3]) [] =
     Inr (Curve (BSplineBasis 4 [0, 0, 0, 0, 3, 3, 3, 3] None)
            [[0, 0], [1, 10 / 3], [2, - (7 / 3)], [3, 1]] False)"
    using cc by (simp add: free_sample_values free_sample_solution)
  then show ?thesis using p k pl by simp
qed

subsection \<open>The knot vector of the \<open>PERIODIC\<close> regime\<close>

lemma py_get_neg:
  "0 < k \<Longrightarrow> k \<le> length xs \<Longrightarrow> py_get xs (- int k) = Inr (xs ! (length xs - k))"
  by (simp add: py_get_def py_index_def nat_diff_distrib' of_nat_diff)

lemma py_get_pos: "k < length xs \<Longrightarrow> py_get xs (int k) = Inr (xs ! k)"
  by (simp add: py_get_def py_index_def)

lemma py_set_neg:
  "0 < k \<Longrightarrow> k \<le> length xs \<Longrightarrow> py_set xs (- int k) v = Inr (xs[length xs - k := v])"
  by (simp add: py_set_def py_index_def nat_diff_distrib' of_nat_diff)

lemma py_set_pos: "k < length xs \<Longrightarrow> py_set xs (int k) v = Inr (xs[k := v])"
  by (simp add: py_set_def py_index_def)

lemma cubic_basis_periodic:
  assumes "3 \<le> length t" and "length knot = length t + 6"
  shows "cubic_basis PERIODIC t knot =
           Inr (BSplineBasis 4
                  (knot[0 := t ! (length t - 3) - t ! (length t - 1),
                        1 := t ! (length t - 2) - t ! (length t - 1),
                        length t + 4 := t ! (length t - 1) + t ! 1,
                        length t + 5 := t ! (length t - 1) + t ! 2])
                  (Some 1))"
proof -
  have g: "py_get t (- 3) = Inr (t ! (length t - 3))"
    "py_get t (- 2) = Inr (t ! (length t - 2))"
    "py_get t (- 1) = Inr (t ! (length t - 1))"
    "py_get t 1 = Inr (t ! 1)" "py_get t 2 = Inr (t ! 2)"
    using assms(1) py_get_neg [of 3 t] py_get_neg [of 2 t] py_get_neg [of 1 t]
      py_get_pos [of 1 t] py_get_pos [of 2 t] by simp_all
  have s: "py_set kn 0 v = Inr (kn[0 := v])" "py_set kn 1 v = Inr (kn[1 := v])"
    "py_set kn (- 2) v = Inr (kn[length t + 4 := v])"
    "py_set kn (- 1) v = Inr (kn[length t + 5 := v])"
    if "length kn = length t + 6" for kn :: "real list" and v
    using that py_set_pos [of 0 kn v] py_set_pos [of 1 kn v] py_set_neg [of 2 kn v]
      py_set_neg [of 1 kn v] by (simp_all add: add.commute)
  show ?thesis
    using assms(2) by (simp add: cubic_basis_def g s)
qed


text \<open>
  C7, as the claim states it, fails for two samples: \<open>t[-3]\<close> does not exist and the call
  raises \<open>IndexError\<close>.
\<close>

theorem periodic_two_samples:
  "cubic_curve reference (NdArray [[0, 0], [1, 0]]) PERIODIC (Some [0, 1]) [] =
     Inl (IndexError ''list index out of range'')"
proof -
  have k: "cubic_knot PERIODIC [0, 1] = Inr [0, 0, 0, 0, 1, 1, 1, 1]"
    by code_simp
  have b: "cubic_basis PERIODIC [0, 1] [0, 0, 0, 0, 1, 1, 1, 1] =
             Inl (IndexError ''list index out of range'')"
    by code_simp
  show ?thesis
    by (simp add: cubic_curve_def parameter_sample_def k b)
qed

text \<open>
  C7, amended.  For a parameter sample of at least three entries, the first two knots of
  the padded sequence are overwritten with \<open>t[-3] - t[-1]\<close> and \<open>t[-2] - t[-1]\<close>, the last
  two with \<open>t[-1] + t[1]\<close> and \<open>t[-1] + t[2]\<close>; the basis has order 4 and periodic
  continuity 1; the system that is solved is the evaluation of the basis at \<open>t\<close> against
  the points, with no further row.
\<close>

theorem periodic_knot_vector:
  assumes "parameter_sample x topt = Inr t" and "3 \<le> length t"
  shows "cubic_curve c x PERIODIC topt tangents =
           (let n = length t;
                knot = (padded t)[0 := t ! (n - 3) - t ! (n - 1),
                                  1 := t ! (n - 2) - t ! (n - 1),
                                  n + 4 := t ! (n - 1) + t ! 1,
                                  n + 5 := t ! (n - 1) + t ! 2];
                basis = BSplineBasis 4 knot (Some 1)
            in and_then (evaluate c basis t 0) (\<lambda>N.
               and_then (solve c N (rows_of x)) (\<lambda>cp.
               Inr (Curve basis cp False))))"
proof -
  have ne: "t \<noteq> []" using assms(2) by auto
  have k: "cubic_knot PERIODIC t = Inr (padded t)"
    using ne by (simp add: cubic_knot_def)
  have b: "cubic_basis PERIODIC t (padded t) =
           Inr (BSplineBasis 4
                  ((padded t)[0 := t ! (length t - 3) - t ! (length t - 1),
                        1 := t ! (length t - 2) - t ! (length t - 1),
                        length t + 4 := t ! (length t - 1) + t ! 1,
                        length t + 5 := t ! (length t - 1) + t ! 2])
                  (Some 1))"
    using assms(2) by (intro cubic_basis_periodic) simp_all
  show ?thesis
    unfolding Let_def
    using assms(1) k b by (intro cubic_curve_no_extra_rows) simp_all
qed


theorem periodic_knot_vector_witness:
  "parameter_sample (NdArray [[1, 0], [0, 1], [1, 0]]) (Some [0, 1, 2]) = Inr [0, 1, 2] \<and>
   3 \<le> length [0, 1, 2 :: real] \<and>
   cubic_curve reference (NdArray [[1, 0], [0, 1], [1, 0]]) PERIODIC (Some [0, 1, 2]) [] =
     and_then (evaluate reference (BSplineBasis 4 [-2, -1, 0, 0, 1, 2, 2, 3, 4] (Some 1))
                 [0, 1, 2] 0) (\<lambda>N.
     and_then (solve reference N [[1, 0], [0, 1], [1, 0]]) (\<lambda>cp.
     Inr (Curve (BSplineBasis 4 [-2, -1, 0, 0, 1, 2, 2, 3, 4] (Some 1)) cp False)))"
proof -
  have p: "parameter_sample (NdArray [[1, 0], [0, 1], [1, 0]]) (Some [0, 1, 2]) =
             Inr [0, 1, 2]"
    by (simp add: parameter_sample_def)
  have l: "3 \<le> length [0, 1, 2 :: real]" by simp
  show ?thesis
    using periodic_knot_vector [OF p l, of reference "[]"] p
    by (simp add: Let_def padded_three)
qed


subsection \<open>\<open>least_square_fit\<close>\<close>

lemma sqdist_nonneg: "0 \<le> sqdist p q"
  unfolding sqdist_def by (rule sum_list_nonneg) auto

lemma residual_nonneg: "0 \<le> residual N cp x"
  unfolding residual_def by (rule sum_list_nonneg) (auto simp: sqdist_nonneg)

lemma least_squares_exact:
  assumes "least_squares N x cp" and "well_shaped (shape1 N) (shape1 x) cp0"
    and "residual N cp0 x = 0"
  shows "residual N cp x = 0"
proof -
  have "residual N cp x \<le> residual N cp0 x"
    using assms(1,2) by (simp add: least_squares_def)
  then show ?thesis
    using assms(3) residual_nonneg [of N cp x] by simp
qed


text \<open>
  C1, as the claim states it, fails: \<open>least_square_fit\<close> compares no row count.  One point
  on a basis of two functions gives the system \<open>[[1, 0]] cp = [[5, 7]]\<close>; the solver returns
  its solution of minimal norm and the call returns a curve.
\<close>

theorem least_square_fit_underdetermined:
  "evaluate reference (BSplineBasis 2 [0, 0, 1, 1] None) [0] 0 = Inr [[1, 0]] \<and>
   least_square_fit reference (NdArray [[5, 7]]) (BSplineBasis 2 [0, 0, 1, 1] None) [0] =
     Inr (Curve (BSplineBasis 2 [0, 0, 1, 1] None) [[5, 7], [0, 0]] False)"
  by code_simp

text \<open>
  C1, amended.  \<open>least_square_fit\<close> returns a curve exactly when the evaluation of the
  basis and the least-squares solver return, whatever the numbers of rows and of basis
  functions are, and it fails only with an error of one of the two.  When the solver
  returns a least-squares solution and the system has an exact solution (as it has when
  the matrix is square and invertible), the residual of the returned control points is
  zero.
\<close>

theorem least_square_fit_unchecked:
  "(least_square_fit c x basis t = Inr crv \<longleftrightarrow>
      (\<exists>N cp. evaluate c basis t 0 = Inr N \<and> lstsq c N (rows_of x) = Inr cp \<and>
              crv = Curve basis cp False)) \<and>
   (least_square_fit c x basis t = Inl e \<longleftrightarrow>
      evaluate c basis t 0 = Inl e \<or>
      (\<exists>N. evaluate c basis t 0 = Inr N \<and> lstsq c N (rows_of x) = Inl e)) \<and>
   (evaluate c basis t 0 = Inr N \<and> lstsq c N (rows_of x) = Inr cp \<and>
    least_squares N (rows_of x) cp \<and>
    well_shaped (shape1 N) (shape1 (rows_of x)) cp0 \<and> residual N cp0 (rows_of x) = 0 \<longrightarrow>
      least_square_fit c x basis t = Inr (Curve basis cp False) \<and>
      residual N cp (rows_of x) = 0)"
proof (intro conjI impI)
  show "least_square_fit c x basis t = Inr crv \<longleftrightarrow>
      (\<exists>N cp. evaluate c basis t 0 = Inr N \<and> lstsq c N (rows_of x) = Inr cp \<and>
              crv = Curve basis cp False)"
    by (auto simp: least_square_fit_def and_then_def split: sum.splits)
next
  show "least_square_fit c x basis t = Inl e \<longleftrightarrow>
      evaluate c basis t 0 = Inl e \<or>
      (\<exists>N. evaluate c basis t 0 = Inr N \<and> lstsq c N (rows_of x) = Inl e)"
    by (auto simp: least_square_fit_def and_then_def split: sum.splits)
next
  assume a: "evaluate c basis t 0 = Inr N \<and> lstsq c N (rows_of x) = Inr cp \<and>
    least_squares N (rows_of x) cp \<and>
    well_shaped (shape1 N) (shape1 (rows_of x)) cp0 \<and> residual N cp0 (rows_of x) = 0"
  then show "least_square_fit c x basis t = Inr (Curve basis cp False)"
    by (simp add: least_square_fit_def)
  show "residual N cp (rows_of x) = 0"
    using a least_squares_exact by blast
qed


theorem least_square_fit_unchecked_witness:
  "evaluate reference (BSplineBasis 2 [0, 0, 1, 1] None) [0, 1] 0 = Inr [[1, 0], [0, 1]] \<and>
   lstsq reference [[1, 0], [0, 1]] [[3, 4], [5, 6]] = Inr [[3, 4], [5, 6]] \<and>
   least_squares [[1, 0], [0, 1]] [[3, 4], [5, 6]] [[3, 4], [5, 6]] \<and>
   well_shaped 2 2 [[3, 4], [5, 6 :: real]] \<and>
   residual [[1, 0], [0, 1]] [[3, 4], [5, 6]] [[3, 4], [5, 6]] = 0 \<and>
   least_square_fit reference (NdArray [[3, 4], [5, 6]]) (BSplineBasis 2 [0, 0, 1, 1] None)
     [0, 1] = Inr (Curve (BSplineBasis 2 [0, 0, 1, 1] None) [[3, 4], [5, 6]] False)"
proof -
  let ?N = "[[1, 0], [0, 1 :: real]]" and ?X = "[[3, 4], [5, 6 :: real]]"
  have e: "evaluate reference (BSplineBasis 2 [0, 0, 1, 1] None) [0, 1] 0 = Inr ?N"
    by code_simp
  have s: "lstsq reference ?N ?X = Inr ?X"
    by code_simp
  have r: "residual ?N ?X ?X = 0"
    by code_simp
  have m: "least_squares ?N ?X ?X"
    unfolding least_squares_def using residual_nonneg by (simp add: r)
  have w: "well_shaped 2 2 ?X"
    by (simp add: well_shaped_def)
  have w': "well_shaped (shape1 ?N) (shape1 (rows_of (NdArray ?X))) ?X"
    by (simp add: well_shaped_def shape1_def)
  show ?thesis
    using least_square_fit_unchecked
            [of reference "NdArray ?X" "BSplineBasis 2 [0, 0, 1, 1] None" "[0, 1]" _ _ ?N ?X ?X]
          e s r m w w'
    by simp
qed


end
